theory Spec2Isabelle
  imports Complex_Main
begin

section \<open>Confetti particle engine: embedding of \<open>src/index.js\<close>\<close>

text \<open>
  The engine consists of the helper object \<open>Utils\<close>, the class \<open>Confetti\<close> (one particle)
  and the class \<open>ConfettiManager\<close> (canvas, live collection, frame step).

  Conventions of the embedding.
  \<^item> JavaScript numbers are read as mathematical reals (\<open>real\<close>); rounding, infinities and
    NaN of IEEE doubles are not represented.
  \<^item> The ambient sources \<open>Math.random()\<close>, \<open>Date.now()\<close> and the \<open>window\<close> object are
    gathered in one record \<open>world\<close> that is passed explicitly. \<open>Math.random\<close> and
    \<open>Date.now\<close> each read the head of a stream and advance it.
  \<^item> A mutated object is a record value that the function returns updated.
  \<^item> The canvas is an \<open>HTMLCanvasElement\<close>: its \<open>width\<close> and \<open>height\<close> are integer
    attributes, and an assignment converts the number assigned as the platform does.
  \<^item> \<open>draw\<close> only issues drawing commands and changes no field, so it is left out.
\<close>

subsection \<open>Values\<close>

text \<open>A field that holds \<open>null\<close>, \<open>undefined\<close> or a proper value.\<close>

datatype 'a jsval = Null | Undefined | Val 'a

text \<open>Truthiness of a string-or-null value, as tested by \<open>!v\<close> and \<open>v ? a : b\<close>.\<close>

fun truthy :: "string jsval \<Rightarrow> bool" where
  "truthy Null = False"
| "truthy Undefined = False"
| "truthy (Val s) = (s \<noteq> [])"

datatype direction = Left | Right

datatype ydir = Down | Up

text \<open>An \<open>{x, y}\<close> object.\<close>

record vec =
  vec_x :: real
  vec_y :: real

text \<open>An \<open>Image\<close> object with its \<open>src\<close>; as an object it is always truthy.\<close>

datatype image = Image string

record world =
  innerWidth :: real
  innerHeight :: real
  devicePixelRatio :: real
  randoms :: "nat \<Rightarrow> real"
  clock :: "nat \<Rightarrow> real"

definition Math_random :: "world \<Rightarrow> real \<times> world" where
  "Math_random w = (randoms w 0, w\<lparr>randoms := (\<lambda>n. randoms w (Suc n))\<rparr>)"

definition Date_now :: "world \<Rightarrow> real \<times> world" where
  "Date_now w = (clock w 0, w\<lparr>clock := (\<lambda>n. clock w (Suc n))\<rparr>)"

text \<open>\<open>Math.random()\<close> returns a number in \<open>[0, 1)\<close>.\<close>

definition unitRandoms :: "world \<Rightarrow> bool" where
  "unitRandoms w = (\<forall>n. 0 \<le> randoms w n \<and> randoms w n < 1)"

subsection \<open>\<open>Utils\<close>\<close>

definition getRandomInRange :: "real \<Rightarrow> real \<Rightarrow> nat \<Rightarrow> world \<Rightarrow> real \<times> world" where
  "getRandomInRange lo hi precision w =
     (let multiplier = 10 ^ precision;
          (r, w') = Math_random w;
          randomValue = r * (hi - lo) + lo
      in (of_int \<lfloor>randomValue * multiplier\<rfloor> / multiplier, w'))"

text \<open>An index outside the array reads \<open>undefined\<close>.\<close>

definition getRandomItem :: "'a list \<Rightarrow> world \<Rightarrow> 'a jsval \<times> world" where
  "getRandomItem array w =
     (let (r, w') = Math_random w;
          i = \<lfloor>r * real (length array)\<rfloor>
      in ((if 0 \<le> i \<and> nat i < length array then Val (array ! nat i) else Undefined), w'))"

definition getScaleFactor :: "world \<Rightarrow> real" where
  "getScaleFactor w = ln (innerWidth w) / ln 1920"

definition DEG_TO_RAD :: real where
  "DEG_TO_RAD = pi / 180"

subsection \<open>Default configuration\<close>

record config =
  confettiesNumber :: "real option"
  confettiRadius :: "real option"
  confettiColors :: "string list option"
  emojies :: "string list option"
  svgIconUrl :: "string jsval option"

definition defaultColors :: "string list" where
  "defaultColors = [''#fcf403'', ''#62fc03'', ''#f4fc03'', ''#03e7fc'',
                    ''#03fca5'', ''#a503fc'', ''#fc03ad'', ''#fc03c2'']"

text \<open>\<open>{...defaultConfettiConfig, ...config}\<close>: a key present in \<open>config\<close> wins.\<close>

definition mergeConfig :: "config \<Rightarrow> real \<times> real \<times> string list \<times> string list \<times> string jsval" where
  "mergeConfig cfg =
     (case_option 100 id (confettiesNumber cfg),
      case_option 4 id (confettiRadius cfg),
      case_option defaultColors id (confettiColors cfg),
      case_option [] id (emojies cfg),
      case_option Null id (svgIconUrl cfg))"

subsection \<open>\<open>class Confetti\<close>\<close>

record Confetti =
  speed :: vec
  finalSpeedX :: real
  rotationSpeed :: real
  dragCoefficient :: real
  radius :: vec
  initialRadius :: real
  rotationAngle :: real
  emojiRotationAngle :: real
  radiusYDirection :: ydir
  absCos :: real
  absSin :: real
  position :: vec
  initialPosition :: vec
  color :: "string jsval"
  emoji :: "string jsval"
  svgIcon :: "image option"
  svgImage :: "image option"
  createdAt :: real
  direction :: direction

text \<open>
  The constructor. Its arguments are the fields of the object it destructures:
  \<open>initialPosition\<close>, \<open>direction\<close>, \<open>radius\<close>, \<open>colors\<close>, \<open>emojis\<close>, \<open>svgIcon\<close>.
  Random numbers are drawn in the order of the source text; two draws are conditional.
\<close>

definition newConfetti ::
  "vec \<Rightarrow> direction \<Rightarrow> real \<Rightarrow> string list \<Rightarrow> string list \<Rightarrow> string jsval \<Rightarrow> world
     \<Rightarrow> Confetti \<times> world" where
  "newConfetti initPos dir rad cols emos icon w0 =
     (let glyph = (length emos \<noteq> 0 \<or> truthy icon);
          (r1, w1) = getRandomInRange 0.9 1.7 3 w0;
          speedFactor = r1 * getScaleFactor w1;
          (fsx, w2) = getRandomInRange 0.2 0.6 3 w1;
          (rs, w3) = (if glyph then (0.01, w2)
                      else (let (r, w) = getRandomInRange 0.03 0.07 3 w2
                            in (r * getScaleFactor w, w)));
          (dc, w4) = getRandomInRange 0.0005 0.0009 6 w3;
          (ra, w5) = (if dir = Left then getRandomInRange 0 0.2 3 w4
                      else getRandomInRange (- 0.2) 0 3 w4);
          (era, w6) = getRandomInRange 0 (2 * pi) 0 w5;
          (a, w7) = (if dir = Left then getRandomInRange 82 15 0 w6
                     else getRandomInRange (- 15) (- 82) 0 w6);
          angle = a * DEG_TO_RAD;
          ac = \<bar>cos angle\<bar>;
          as = \<bar>sin angle\<bar>;
          (offset, w8) = getRandomInRange (- 150) 0 0 w7;
          pos = \<lparr>vec_x = vec_x initPos + (if dir = Left then - offset else offset) * ac,
                 vec_y = vec_y initPos - offset * as\<rparr>;
          (col, w9) = (if glyph then (Null, w8) else getRandomItem cols w8);
          (emo, w10) = (if length emos \<noteq> 0 then getRandomItem emos w9 else (Null, w9));
          (t, w11) = Date_now w10
      in (\<lparr>speed = \<lparr>vec_x = speedFactor, vec_y = speedFactor\<rparr>,
           finalSpeedX = fsx,
           rotationSpeed = rs,
           dragCoefficient = dc,
           radius = \<lparr>vec_x = rad, vec_y = rad\<rparr>,
           initialRadius = rad,
           rotationAngle = ra,
           emojiRotationAngle = era,
           radiusYDirection = Down,
           absCos = ac,
           absSin = as,
           position = pos,
           initialPosition = pos,
           color = col,
           emoji = emo,
           svgIcon = None,
           svgImage = (if truthy icon then Some (Image (case icon of Val s \<Rightarrow> s | _ \<Rightarrow> [])) else None),
           createdAt = t,
           direction = dir\<rparr>, w11))"

text \<open>The \<open>onload\<close> handler of the preloaded image: the icon becomes ready.\<close>

definition onload :: "Confetti \<Rightarrow> Confetti" where
  "onload p = p\<lparr>svgIcon := svgImage p\<rparr>"

definition updatePosition :: "real \<Rightarrow> real \<Rightarrow> Confetti \<Rightarrow> Confetti" where
  "updatePosition deltaTime currentTime p =
     (let elapsed = currentTime - createdAt p;
          p1 = (if vec_x (speed p) > finalSpeedX p
                then p\<lparr>speed := (speed p)\<lparr>vec_x := vec_x (speed p) - dragCoefficient p * deltaTime\<rparr>\<rparr>
                else p);
          p2 = p1\<lparr>position := (position p1)\<lparr>vec_x := vec_x (position p1) +
                  vec_x (speed p1) * (if direction p1 = Left then - absCos p1 else absCos p1)
                    * deltaTime\<rparr>\<rparr>;
          p3 = p2\<lparr>position := (position p2)\<lparr>vec_y := vec_y (initialPosition p2) -
                  vec_y (speed p2) * absSin p2 * elapsed + (0.00125 * elapsed ^ 2) / 2\<rparr>\<rparr>
      in if \<not> truthy (emoji p3) \<and> svgIcon p3 = None
         then (let p4 = p3\<lparr>rotationSpeed := rotationSpeed p3 - 0.00001 * deltaTime\<rparr>;
                   p5 = p4\<lparr>rotationSpeed := max (rotationSpeed p4) 0\<rparr>
               in if radiusYDirection p5 = Down
                  then (let p6 = p5\<lparr>radius := (radius p5)\<lparr>vec_y := vec_y (radius p5) -
                                   deltaTime * rotationSpeed p5\<rparr>\<rparr>
                        in if vec_y (radius p6) \<le> 0
                           then p6\<lparr>radius := (radius p6)\<lparr>vec_y := 0\<rparr>, radiusYDirection := Up\<rparr>
                           else p6)
                  else (let p6 = p5\<lparr>radius := (radius p5)\<lparr>vec_y := vec_y (radius p5) +
                                   deltaTime * rotationSpeed p5\<rparr>\<rparr>
                        in if vec_y (radius p6) \<ge> initialRadius p6
                           then p6\<lparr>radius := (radius p6)\<lparr>vec_y := initialRadius p6\<rparr>,
                                   radiusYDirection := Down\<rparr>
                           else p6))
         else p3)"

definition isVisible :: "Confetti \<Rightarrow> real \<Rightarrow> bool" where
  "isVisible p canvasHeight = (vec_y (position p) < canvasHeight + 100)"

text \<open>
  What can happen to a particle after its creation: a frame update with its two
  arguments, or the completion of the icon download.
\<close>

datatype event = Update real real | IconLoaded

fun deltaOf :: "event \<Rightarrow> real" where
  "deltaOf (Update deltaTime currentTime) = deltaTime"
| "deltaOf IconLoaded = 0"

fun occur :: "event \<Rightarrow> Confetti \<Rightarrow> Confetti" where
  "occur (Update deltaTime currentTime) p = updatePosition deltaTime currentTime p"
| "occur IconLoaded p = onload p"

fun life :: "event list \<Rightarrow> Confetti \<Rightarrow> Confetti" where
  "life [] p = p"
| "life (e # es) p = life es (occur e p)"

subsection \<open>\<open>class ConfettiManager\<close>\<close>

record ConfettiManager =
  canvas_width :: real
  canvas_height :: real
  confetti :: "Confetti list"
  lastUpdated :: real

text \<open>
  The canvas is created by \<open>document.createElement("canvas")\<close>, so \<open>canvas.width\<close> and
  \<open>canvas.height\<close> are the \<open>unsigned long\<close> attributes of the platform's canvas element.
  Assigning a number first converts it to an unsigned 32-bit integer: the fraction is
  dropped (towards zero) and the result is taken modulo \<open>2\<^sup>3\<^sup>2\<close>. A value above
  \<open>2147483647\<close> is then replaced by the attribute's default, 300 for the width and 150
  for the height. Reading the attribute gives the integer stored.
\<close>

definition toUnsignedLong :: "real \<Rightarrow> int" where
  "toUnsignedLong v = (if v < 0 then \<lceil>v\<rceil> else \<lfloor>v\<rfloor>) mod 2 ^ 32"

definition setCanvasDimension :: "int \<Rightarrow> real \<Rightarrow> real" where
  "setCanvasDimension dflt v =
     (let n = toUnsignedLong v in if n \<le> 2147483647 then of_int n else of_int dflt)"

definition resizeCanvas :: "ConfettiManager \<Rightarrow> world \<Rightarrow> ConfettiManager" where
  "resizeCanvas m w =
     m\<lparr>canvas_width := setCanvasDimension 300 (innerWidth w * devicePixelRatio w),
       canvas_height := setCanvasDimension 150 (innerHeight w * devicePixelRatio w)\<rparr>"

text \<open>
  The constructor of the manager: a fresh canvas (300 by 150 until it is resized), an empty
  collection, the frame clock set to now, and a first \<open>resizeCanvas\<close>. Appending the canvas
  to the page and scheduling the first frame are left to the host.
\<close>

definition newConfettiManager :: "world \<Rightarrow> ConfettiManager \<times> world" where
  "newConfettiManager w =
     (let (t, w') = Date_now w
      in (resizeCanvas \<lparr>canvas_width = 300, canvas_height = 150, confetti = [], lastUpdated = t\<rparr> w',
          w'))"

text \<open>
  The \<open>for\<close> loop of \<open>addConfetti\<close>, with the counter \<open>i\<close>, the particles pushed so far
  and the world as loop state. \<open>confettiesNumber / 2\<close> is a division of numbers, not of
  integers.
\<close>

function addConfetti_loop ::
  "real \<Rightarrow> real \<Rightarrow> real \<Rightarrow> string list \<Rightarrow> string list \<Rightarrow> string jsval
     \<Rightarrow> nat \<Rightarrow> Confetti list \<Rightarrow> world \<Rightarrow> Confetti list \<times> world" where
  "addConfetti_loop baseY num rad cols emos icon i cs w =
     (if real i < num / 2
      then (let (c1, w1) = newConfetti \<lparr>vec_x = 0, vec_y = baseY\<rparr> Right rad cols emos icon w;
                (c2, w2) = newConfetti \<lparr>vec_x = innerWidth w1, vec_y = baseY\<rparr> Left rad cols emos icon w1
            in addConfetti_loop baseY num rad cols emos icon (Suc i) (cs @ [c1, c2]) w2)
      else (cs, w))"
  by pat_completeness auto
termination
proof (relation "measure (\<lambda>(baseY, num, rad, cols, emos, icon, i, cs, w). nat \<lceil>num / 2\<rceil> - i)")
  show "wf (measure (\<lambda>(baseY, num, rad, cols, emos, icon, i, cs, w). nat \<lceil>(num::real) / 2\<rceil> - i))"
    by simp
next
  fix baseY num rad :: real and cols emos :: "string list" and icon :: "string jsval"
    and i :: nat and cs :: "Confetti list" and w :: world
    and x1 :: "Confetti \<times> world" and c1 :: Confetti and w1 :: world
    and x2 :: "Confetti \<times> world" and c2 :: Confetti and w2 :: world
  assume "real i < num / 2"
  then have "int i < \<lceil>num / 2\<rceil>"
    by linarith
  then have "i < nat \<lceil>num / 2\<rceil>"
    by linarith
  then show "((baseY, num, rad, cols, emos, icon, Suc i, cs @ [c1, c2], w2),
              (baseY, num, rad, cols, emos, icon, i, cs, w))
             \<in> measure (\<lambda>(baseY, num, rad, cols, emos, icon, i, cs, w). nat \<lceil>num / 2\<rceil> - i)"
    by simp
qed

declare addConfetti_loop.simps [simp del]

definition addConfetti :: "config \<Rightarrow> ConfettiManager \<Rightarrow> world \<Rightarrow> ConfettiManager \<times> world" where
  "addConfetti cfg m w =
     (let (num, rad, cols, emos, icon) = mergeConfig cfg;
          baseY = (5 * innerHeight w) / 7;
          (cs, w') = addConfetti_loop baseY num rad cols emos icon 0 (confetti m) w
      in (m\<lparr>confetti := cs\<rparr>, w'))"

definition resetAndStart :: "config \<Rightarrow> ConfettiManager \<Rightarrow> world \<Rightarrow> ConfettiManager \<times> world" where
  "resetAndStart cfg m w = addConfetti cfg (m\<lparr>confetti := []\<rparr>) w"

text \<open>
  \<open>launchedFrom origin dir rad cols emos icon w p\<close>: the particle \<open>p\<close> is what the
  constructor returns for the launch point \<open>origin\<close>, the direction and the visual
  parameters given, in the window of \<open>w\<close>, for some state of the random source and the
  clock. This is a notion of the specification, not a function of the source.
\<close>

definition launchedFrom ::
  "vec \<Rightarrow> direction \<Rightarrow> real \<Rightarrow> string list \<Rightarrow> string list \<Rightarrow> string jsval \<Rightarrow> world
     \<Rightarrow> Confetti \<Rightarrow> bool" where
  "launchedFrom origin dir rad cols emos icon w p =
     (\<exists>w'. innerWidth w' = innerWidth w \<and> innerHeight w' = innerHeight w
          \<and> devicePixelRatio w' = devicePixelRatio w
          \<and> p = fst (newConfetti origin dir rad cols emos icon w'))"

text \<open>
  One frame. The callback of \<open>filter\<close> updates the particle it is given and then tests it,
  so the new collection holds the updated particles that pass the test.
\<close>

definition loop :: "ConfettiManager \<Rightarrow> world \<Rightarrow> ConfettiManager \<times> world" where
  "loop m w =
     (let (currentTime, w') = Date_now w;
          deltaTime = currentTime - lastUpdated m;
          m1 = m\<lparr>lastUpdated := currentTime\<rparr>
      in (m1\<lparr>confetti := filter (\<lambda>item. isVisible item (canvas_height m1))
                            (map (updatePosition deltaTime currentTime) (confetti m1))\<rparr>, w'))"

subsection \<open>Sample inputs\<close>

text \<open>
  A window of 1920 by 1080 at device pixel ratio 2, a random source that always yields
  \<open>1/2\<close>, a clock that starts at 1000 ms and advances 16 ms per reading; and a plain
  coloured particle as the constructor could have produced it at time 0.
\<close>

definition sampleWorld :: world where
  "sampleWorld = \<lparr>innerWidth = 1920, innerHeight = 1080, devicePixelRatio = 2,
                   randoms = (\<lambda>n. 1 / 2), clock = (\<lambda>n. 1000 + 16 * real n)\<rparr>"


definition sampleConfetti :: Confetti where
  "sampleConfetti =
     \<lparr>speed = \<lparr>vec_x = 1, vec_y = 1\<rparr>,
      finalSpeedX = 0.4,
      rotationSpeed = 0.05,
      dragCoefficient = 0.0007,
      radius = \<lparr>vec_x = 4, vec_y = 4\<rparr>,
      initialRadius = 4,
      rotationAngle = 0,
      emojiRotationAngle = 0,
      radiusYDirection = Down,
      absCos = 0.6,
      absSin = 0.8,
      position = \<lparr>vec_x = 0, vec_y = 700\<rparr>,
      initialPosition = \<lparr>vec_x = 0, vec_y = 700\<rparr>,
      color = Val ''#fcf403'',
      emoji = Null,
      svgIcon = None,
      svgImage = None,
      createdAt = 0,
      direction = Right\<rparr>"

definition sampleManager :: "Confetti list \<Rightarrow> ConfettiManager" where
  "sampleManager cs = \<lparr>canvas_width = 3840, canvas_height = 2160, confetti = cs,
                        lastUpdated = 984\<rparr>"

definition sampleConfig :: "real \<Rightarrow> config" where
  "sampleConfig n = \<lparr>confettiesNumber = Some n, confettiRadius = None, confettiColors = None,
                      emojies = None, svgIconUrl = None\<rparr>"

section \<open>Auxiliary facts\<close>

subsection \<open>Fields an update leaves alone\<close>

lemma updatePosition_fixed:
  "createdAt (updatePosition dt now p) = createdAt p"
  "initialPosition (updatePosition dt now p) = initialPosition p"
  "vec_y (speed (updatePosition dt now p)) = vec_y (speed p)"
  "absSin (updatePosition dt now p) = absSin p"
  "absCos (updatePosition dt now p) = absCos p"
  "direction (updatePosition dt now p) = direction p"
  "finalSpeedX (updatePosition dt now p) = finalSpeedX p"
  "dragCoefficient (updatePosition dt now p) = dragCoefficient p"
  "initialRadius (updatePosition dt now p) = initialRadius p"
  "emoji (updatePosition dt now p) = emoji p"
  "svgIcon (updatePosition dt now p) = svgIcon p"
  "svgImage (updatePosition dt now p) = svgImage p"
  "color (updatePosition dt now p) = color p"
  by (simp_all add: updatePosition_def Let_def)

lemma onload_fixed:
  "createdAt (onload p) = createdAt p"
  "initialPosition (onload p) = initialPosition p"
  "speed (onload p) = speed p"
  "absSin (onload p) = absSin p"
  "absCos (onload p) = absCos p"
  "direction (onload p) = direction p"
  "finalSpeedX (onload p) = finalSpeedX p"
  "dragCoefficient (onload p) = dragCoefficient p"
  "initialRadius (onload p) = initialRadius p"
  "emoji (onload p) = emoji p"
  "color (onload p) = color p"
  "radius (onload p) = radius p"
  "rotationSpeed (onload p) = rotationSpeed p"
  "radiusYDirection (onload p) = radiusYDirection p"
  "position (onload p) = position p"
  by (simp_all add: onload_def)

lemma occur_fixed:
  "createdAt (occur e p) = createdAt p"
  "initialPosition (occur e p) = initialPosition p"
  "vec_y (speed (occur e p)) = vec_y (speed p)"
  "absSin (occur e p) = absSin p"
  "absCos (occur e p) = absCos p"
  "direction (occur e p) = direction p"
  "finalSpeedX (occur e p) = finalSpeedX p"
  "dragCoefficient (occur e p) = dragCoefficient p"
  "initialRadius (occur e p) = initialRadius p"
  "emoji (occur e p) = emoji p"
  "color (occur e p) = color p"
  by (cases e; simp add: updatePosition_fixed onload_fixed)+

lemma life_fixed:
  "createdAt (life es p) = createdAt p"
  "initialPosition (life es p) = initialPosition p"
  "vec_y (speed (life es p)) = vec_y (speed p)"
  "absSin (life es p) = absSin p"
  "absCos (life es p) = absCos p"
  "direction (life es p) = direction p"
  "finalSpeedX (life es p) = finalSpeedX p"
  "dragCoefficient (life es p) = dragCoefficient p"
  "initialRadius (life es p) = initialRadius p"
  "emoji (life es p) = emoji p"
  "color (life es p) = color p"
  by (induction es arbitrary: p; simp add: occur_fixed)+

subsection \<open>What one update computes\<close>

lemma updatePosition_position_y:
  "vec_y (position (updatePosition dt now p)) =
     vec_y (initialPosition p) - vec_y (speed p) * absSin p * (now - createdAt p)
       + (0.00125 * (now - createdAt p) ^ 2) / 2"
  by (simp add: updatePosition_def Let_def)

lemma updatePosition_speed_x:
  "vec_x (speed (updatePosition dt now p)) =
     (if vec_x (speed p) > finalSpeedX p then vec_x (speed p) - dragCoefficient p * dt
      else vec_x (speed p))"
  by (simp add: updatePosition_def Let_def)

lemma updatePosition_position_x:
  "vec_x (position (updatePosition dt now p)) =
     vec_x (position p) + vec_x (speed (updatePosition dt now p))
        * (if direction p = Left then - absCos p else absCos p) * dt"
  by (simp add: updatePosition_def Let_def)

lemma occur_speed_floor:
  "vec_x (speed p) \<le> finalSpeedX p \<Longrightarrow> vec_x (speed (occur e p)) = vec_x (speed p)"
  by (cases e) (simp_all add: updatePosition_speed_x onload_fixed)

lemma updatePosition_rotationSpeed:
  "rotationSpeed (updatePosition dt now p) =
     (if \<not> truthy (emoji p) \<and> svgIcon p = None then max (rotationSpeed p - 0.00001 * dt) 0
      else rotationSpeed p)"
  by (auto simp add: updatePosition_def Let_def)

lemma updatePosition_tumble_down:
  assumes "\<not> truthy (emoji p)" and "svgIcon p = None" and "radiusYDirection p = Down"
  shows "vec_y (radius (updatePosition dt now p)) =
           max 0 (vec_y (radius p) - dt * max (rotationSpeed p - 0.00001 * dt) 0)"
    and "radiusYDirection (updatePosition dt now p) =
           (if vec_y (radius p) - dt * max (rotationSpeed p - 0.00001 * dt) 0 \<le> 0 then Up else Down)"
  using assms by (simp_all add: updatePosition_def Let_def)

lemma updatePosition_tumble_up:
  assumes "\<not> truthy (emoji p)" and "svgIcon p = None" and "radiusYDirection p = Up"
  shows "vec_y (radius (updatePosition dt now p)) =
           min (initialRadius p) (vec_y (radius p) + dt * max (rotationSpeed p - 0.00001 * dt) 0)"
    and "radiusYDirection (updatePosition dt now p) =
           (if vec_y (radius p) + dt * max (rotationSpeed p - 0.00001 * dt) 0 \<ge> initialRadius p
            then Down else Up)"
  using assms by (simp_all add: updatePosition_def Let_def)

lemma updatePosition_radius_bounds:
  assumes "0 \<le> dt" and "0 \<le> vec_y (radius p)" and "vec_y (radius p) \<le> initialRadius p"
  shows "0 \<le> vec_y (radius (updatePosition dt now p))
       \<and> vec_y (radius (updatePosition dt now p)) \<le> initialRadius p"
proof -
  have m: "0 \<le> dt * max (rotationSpeed p - dt / 100000) 0"
    using assms(1) by simp
  show ?thesis
    using assms
    apply (simp add: updatePosition_def Let_def)
    using m
    apply linarith
    done
qed

lemma occur_radius_bounds:
  assumes "0 \<le> deltaOf e" and "0 \<le> vec_y (radius p)" and "vec_y (radius p) \<le> initialRadius p"
  shows "0 \<le> vec_y (radius (occur e p)) \<and> vec_y (radius (occur e p)) \<le> initialRadius p"
  using assms by (cases e) (simp_all add: updatePosition_radius_bounds onload_fixed)

lemma life_radius_bounds:
  assumes "\<forall>e \<in> set es. 0 \<le> deltaOf e"
    and "0 \<le> vec_y (radius p)" and "vec_y (radius p) \<le> initialRadius p"
  shows "0 \<le> vec_y (radius (life es p)) \<and> vec_y (radius (life es p)) \<le> initialRadius p"
  using assms
proof (induction es arbitrary: p)
  case Nil
  then show ?case by simp
next
  case (Cons e es)
  have b: "0 \<le> vec_y (radius (occur e p))" "vec_y (radius (occur e p)) \<le> initialRadius (occur e p)"
    using occur_radius_bounds [of e p] Cons.prems by (simp_all add: occur_fixed)
  have "0 \<le> vec_y (radius (life es (occur e p)))
      \<and> vec_y (radius (life es (occur e p))) \<le> initialRadius (occur e p)"
    using Cons.prems(1) b by (intro Cons.IH) simp_all
  then show ?case
    by (simp add: occur_fixed)
qed

lemma updatePosition_glyph_frame:
  assumes "truthy (emoji p) \<or> svgIcon p \<noteq> None"
  shows "updatePosition dt now p =
           p\<lparr>speed := (speed p)\<lparr>vec_x := vec_x (speed (updatePosition dt now p))\<rparr>,
             position := position (updatePosition dt now p)\<rparr>"
  using assms by (auto simp add: updatePosition_def Let_def)

lemma updatePosition_glyph_fixed:
  assumes "truthy (emoji p) \<or> svgIcon p \<noteq> None"
  shows "rotationSpeed (updatePosition dt now p) = rotationSpeed p"
    and "radius (updatePosition dt now p) = radius p"
    and "radiusYDirection (updatePosition dt now p) = radiusYDirection p"
  using assms by (auto simp add: updatePosition_def Let_def)

lemma updates_glyph_fixed:
  assumes "truthy (emoji p) \<or> svgIcon p \<noteq> None"
  shows "rotationSpeed (life (map (\<lambda>(d, t). Update d t) us) p) = rotationSpeed p
       \<and> radius (life (map (\<lambda>(d, t). Update d t) us) p) = radius p
       \<and> radiusYDirection (life (map (\<lambda>(d, t). Update d t) us) p) = radiusYDirection p"
  using assms
proof (induction us arbitrary: p)
  case Nil
  then show ?case by simp
next
  case (Cons u us)
  obtain d t where u: "u = (d, t)"
    by (cases u)
  have "truthy (emoji (updatePosition d t p)) \<or> svgIcon (updatePosition d t p) \<noteq> None"
    using Cons.prems by (simp add: updatePosition_fixed)
  from Cons.IH [OF this] show ?case
    using Cons.prems by (simp add: u updatePosition_glyph_fixed)
qed

lemma life_emoji_fixed:
  assumes "truthy (emoji p)"
  shows "rotationSpeed (life es p) = rotationSpeed p
       \<and> radius (life es p) = radius p
       \<and> radiusYDirection (life es p) = radiusYDirection p"
  using assms
proof (induction es arbitrary: p)
  case Nil
  then show ?case by simp
next
  case (Cons e es)
  have "truthy (emoji (occur e p))"
    using Cons.prems by (simp add: occur_fixed)
  from Cons.IH [OF this] show ?case
    using Cons.prems by (cases e) (simp_all add: updatePosition_glyph_fixed onload_fixed)
qed

subsection \<open>The random source and the window\<close>

lemma Math_random_window:
  "innerWidth (snd (Math_random w)) = innerWidth w"
  "innerHeight (snd (Math_random w)) = innerHeight w"
  "devicePixelRatio (snd (Math_random w)) = devicePixelRatio w"
  by (simp_all add: Math_random_def)

lemma getRandomInRange_window:
  "innerWidth (snd (getRandomInRange lo hi pr w)) = innerWidth w"
  "innerHeight (snd (getRandomInRange lo hi pr w)) = innerHeight w"
  "devicePixelRatio (snd (getRandomInRange lo hi pr w)) = devicePixelRatio w"
  by (simp_all add: getRandomInRange_def Math_random_def Let_def)

lemma getRandomItem_window:
  "innerWidth (snd (getRandomItem xs w)) = innerWidth w"
  "innerHeight (snd (getRandomItem xs w)) = innerHeight w"
  "devicePixelRatio (snd (getRandomItem xs w)) = devicePixelRatio w"
  by (simp_all add: getRandomItem_def Math_random_def Let_def)

lemma Date_now_window:
  "innerWidth (snd (Date_now w)) = innerWidth w"
  "innerHeight (snd (Date_now w)) = innerHeight w"
  "devicePixelRatio (snd (Date_now w)) = devicePixelRatio w"
  by (simp_all add: Date_now_def)

lemma unitRandoms_Math_random:
  "unitRandoms w \<Longrightarrow> unitRandoms (snd (Math_random w))"
  "unitRandoms w \<Longrightarrow> 0 \<le> fst (Math_random w) \<and> fst (Math_random w) < 1"
  by (simp_all add: unitRandoms_def Math_random_def)

lemma unitRandoms_getRandomInRange:
  "unitRandoms w \<Longrightarrow> unitRandoms (snd (getRandomInRange lo hi pr w))"
  by (simp add: getRandomInRange_def Let_def case_prod_beta unitRandoms_Math_random)

lemma unitRandoms_getRandomItem:
  "unitRandoms w \<Longrightarrow> unitRandoms (snd (getRandomItem xs w))"
  by (simp add: getRandomItem_def Let_def case_prod_beta unitRandoms_Math_random)

lemma getRandomItem_member:
  assumes "unitRandoms w" and "xs \<noteq> []"
  shows "\<exists>x \<in> set xs. fst (getRandomItem xs w) = Val x"
proof -
  define r where "r = fst (Math_random w)"
  define i where "i = \<lfloor>r * real (length xs)\<rfloor>"
  have r: "0 \<le> r" "r < 1"
    using unitRandoms_Math_random(2) [OF assms(1)] by (simp_all add: r_def)
  have n: "0 < real (length xs)"
    using assms(2) by simp
  have "0 \<le> r * real (length xs)"
    using r(1) by simp
  then have lo: "0 \<le> i"
    by (simp add: i_def)
  have "r * real (length xs) < real (length xs)"
    using r(2) n by simp
  then have "i < int (length xs)"
    unfolding i_def by linarith
  then have hi: "nat i < length xs"
    using lo by linarith
  have "fst (getRandomItem xs w) = Val (xs ! nat i)"
    using lo hi by (simp add: getRandomItem_def Let_def case_prod_beta r_def i_def)
  then show ?thesis
    using hi by auto
qed

lemma getRandomItem_not_Null:
  "fst (getRandomItem xs w) \<noteq> Null"
  by (simp add: getRandomItem_def Let_def case_prod_beta)

lemma getRandomItem_image:
  "unitRandoms w \<Longrightarrow> xs \<noteq> [] \<Longrightarrow> fst (getRandomItem xs w) \<in> Val ` set xs"
  using getRandomItem_member [of w xs] by auto

lemma Math_random_const:
  assumes "randoms w = (\<lambda>n. r)"
  shows "fst (Math_random w) = r" and "randoms (snd (Math_random w)) = (\<lambda>n. r)"
  using assms by (simp_all add: Math_random_def)

lemma getRandomInRange_const:
  assumes "randoms w = (\<lambda>n. r)"
  shows "fst (getRandomInRange lo hi pr w) = of_int \<lfloor>(r * (hi - lo) + lo) * 10 ^ pr\<rfloor> / 10 ^ pr"
    and "randoms (snd (getRandomInRange lo hi pr w)) = (\<lambda>n. r)"
  using assms by (simp_all add: getRandomInRange_def Let_def case_prod_beta Math_random_const)

lemma getRandomItem_const:
  assumes "randoms w = (\<lambda>n. r)"
  shows "fst (getRandomItem xs w) =
           (if 0 \<le> \<lfloor>r * real (length xs)\<rfloor> \<and> nat \<lfloor>r * real (length xs)\<rfloor> < length xs
            then Val (xs ! nat \<lfloor>r * real (length xs)\<rfloor>) else Undefined)"
    and "randoms (snd (getRandomItem xs w)) = (\<lambda>n. r)"
  using assms by (simp_all add: getRandomItem_def Let_def case_prod_beta Math_random_const)

lemma getScaleFactor_getRandomInRange:
  "getScaleFactor (snd (getRandomInRange lo hi pr w)) = getScaleFactor w"
  by (simp add: getScaleFactor_def getRandomInRange_def Math_random_def Let_def)

subsection \<open>The constructor\<close>

lemma newConfetti_window:
  "innerWidth (snd (newConfetti ip d r c e ic w)) = innerWidth w"
  "innerHeight (snd (newConfetti ip d r c e ic w)) = innerHeight w"
  "devicePixelRatio (snd (newConfetti ip d r c e ic w)) = devicePixelRatio w"
  by (simp_all add: newConfetti_def Let_def case_prod_beta getRandomInRange_window
      getRandomItem_window Date_now_window)

lemma newConfetti_fields:
  "direction (fst (newConfetti ip d r c e ic w)) = d"
  "radius (fst (newConfetti ip d r c e ic w)) = \<lparr>vec_x = r, vec_y = r\<rparr>"
  "initialRadius (fst (newConfetti ip d r c e ic w)) = r"
  "radiusYDirection (fst (newConfetti ip d r c e ic w)) = Down"
  "svgIcon (fst (newConfetti ip d r c e ic w)) = None"
  by (simp_all add: newConfetti_def Let_def case_prod_beta)

lemma newConfetti_svgImage:
  "svgImage (fst (newConfetti ip d r c e ic w)) =
     (if truthy ic then Some (Image (case ic of Val s \<Rightarrow> s | _ \<Rightarrow> [])) else None)"
  by (simp add: newConfetti_def Let_def case_prod_beta)

lemma newConfetti_color:
  "color (fst (newConfetti ip d r c e ic w)) = Null \<longleftrightarrow> e \<noteq> [] \<or> truthy ic"
  by (simp add: newConfetti_def Let_def case_prod_beta getRandomItem_not_Null)

lemma newConfetti_color_member:
  assumes "unitRandoms w" and "c \<noteq> []" and "\<not> (e \<noteq> [] \<or> truthy ic)"
  shows "color (fst (newConfetti ip d r c e ic w)) \<in> Val ` set c"
  using assms
  by (simp add: newConfetti_def Let_def case_prod_beta getRandomItem_image
      unitRandoms_getRandomInRange unitRandoms_getRandomItem)

lemma newConfetti_emoji_member:
  assumes "unitRandoms w" and "e \<noteq> []"
  shows "emoji (fst (newConfetti ip d r c e ic w)) \<in> Val ` set e"
  using assms
  by (simp add: newConfetti_def Let_def case_prod_beta getRandomItem_image
      unitRandoms_getRandomInRange unitRandoms_getRandomItem)

lemma newConfetti_emoji_Null:
  "e = [] \<Longrightarrow> emoji (fst (newConfetti ip d r c e ic w)) = Null"
  by (simp add: newConfetti_def Let_def case_prod_beta)

lemma newConfetti_rotationSpeed_glyph:
  "emos \<noteq> [] \<or> truthy icon \<Longrightarrow>
     rotationSpeed (fst (newConfetti initPos dir rad cols emos icon w)) = 0.01"
  by (auto simp add: newConfetti_def Let_def case_prod_beta)

lemma newConfetti_rotationSpeed_const:
  assumes "randoms w = (\<lambda>n. r)" and "e = []" and "\<not> truthy ic"
  shows "rotationSpeed (fst (newConfetti ip d rad c e ic w)) =
           of_int \<lfloor>(r * (0.07 - 0.03) + 0.03) * 10 ^ 3\<rfloor> / 10 ^ 3 * getScaleFactor w"
  using assms
  apply (simp only: newConfetti_def Let_def case_prod_beta fst_conv Confetti.select_convs)
  apply (simp add: getRandomInRange_const getScaleFactor_getRandomInRange)
  done

lemma newConfetti_emoji_const:
  assumes "randoms w = (\<lambda>n. r)" and "e \<noteq> []"
  shows "emoji (fst (newConfetti ip d rad c e ic w)) =
           (if 0 \<le> \<lfloor>r * real (length e)\<rfloor> \<and> nat \<lfloor>r * real (length e)\<rfloor> < length e
            then Val (e ! nat \<lfloor>r * real (length e)\<rfloor>) else Undefined)"
  using assms
  apply (simp only: newConfetti_def Let_def case_prod_beta fst_conv Confetti.select_convs)
  apply (simp add: getRandomInRange_const getRandomItem_const)
  done

lemma newConfetti_color_const:
  assumes "randoms w = (\<lambda>n. r)" and "e = []" and "\<not> truthy ic"
  shows "color (fst (newConfetti ip d rad c e ic w)) =
           (if 0 \<le> \<lfloor>r * real (length c)\<rfloor> \<and> nat \<lfloor>r * real (length c)\<rfloor> < length c
            then Val (c ! nat \<lfloor>r * real (length c)\<rfloor>) else Undefined)"
  using assms
  apply (simp only: newConfetti_def Let_def case_prod_beta fst_conv Confetti.select_convs)
  apply (simp add: getRandomInRange_const getRandomItem_const)
  done

lemma launchedFrom_same_window:
  assumes "launchedFrom origin dir rad cols emos icon v p"
    and "innerWidth v = innerWidth w" and "innerHeight v = innerHeight w"
    and "devicePixelRatio v = devicePixelRatio w"
  shows "launchedFrom origin dir rad cols emos icon w p"
  using assms by (auto simp add: launchedFrom_def)

lemma launchedFrom_newConfetti:
  "launchedFrom origin dir rad cols emos icon w (fst (newConfetti origin dir rad cols emos icon w))"
  by (auto simp add: launchedFrom_def)

subsection \<open>The spawning loop\<close>

lemma addConfetti_loop_unfold:
  "addConfetti_loop b n r c e ic i cs w =
     (if real i < n / 2
      then addConfetti_loop b n r c e ic (Suc i)
             (cs @ [fst (newConfetti \<lparr>vec_x = 0, vec_y = b\<rparr> Right r c e ic w),
                    fst (newConfetti \<lparr>vec_x = innerWidth w, vec_y = b\<rparr> Left r c e ic
                           (snd (newConfetti \<lparr>vec_x = 0, vec_y = b\<rparr> Right r c e ic w)))])
             (snd (newConfetti \<lparr>vec_x = innerWidth w, vec_y = b\<rparr> Left r c e ic
                           (snd (newConfetti \<lparr>vec_x = 0, vec_y = b\<rparr> Right r c e ic w))))
      else (cs, w))"
  by (subst addConfetti_loop.simps) (simp add: Let_def case_prod_beta newConfetti_window)

lemma addConfetti_loop_append:
  "fst (addConfetti_loop b n r c e ic i cs w) = cs @ fst (addConfetti_loop b n r c e ic i [] w)"
proof (induction "nat \<lceil>n / 2\<rceil> - i" arbitrary: i cs w)
  case 0
  then have "\<not> real i < n / 2"
    by linarith
  then show ?case
    by (simp add: addConfetti_loop_unfold [of b n r c e ic i])
next
  case (Suc d)
  then have lt: "real i < n / 2"
    by linarith
  have d: "d = nat \<lceil>n / 2\<rceil> - Suc i"
    using Suc.hyps(2) by simp
  define c1 where "c1 = fst (newConfetti \<lparr>vec_x = 0, vec_y = b\<rparr> Right r c e ic w)"
  define w1 where "w1 = snd (newConfetti \<lparr>vec_x = 0, vec_y = b\<rparr> Right r c e ic w)"
  define c2 where "c2 = fst (newConfetti \<lparr>vec_x = innerWidth w, vec_y = b\<rparr> Left r c e ic w1)"
  define w2 where "w2 = snd (newConfetti \<lparr>vec_x = innerWidth w, vec_y = b\<rparr> Left r c e ic w1)"
  have step: "addConfetti_loop b n r c e ic i xs w
                = addConfetti_loop b n r c e ic (Suc i) (xs @ [c1, c2]) w2" for xs
    using lt by (subst addConfetti_loop_unfold) (simp add: c1_def c2_def w1_def w2_def)
  have ih: "fst (addConfetti_loop b n r c e ic (Suc i) xs w2)
              = xs @ fst (addConfetti_loop b n r c e ic (Suc i) [] w2)" for xs
    by (rule Suc.hyps(1) [OF d])
  have "fst (addConfetti_loop b n r c e ic i cs w)
          = (cs @ [c1, c2]) @ fst (addConfetti_loop b n r c e ic (Suc i) [] w2)"
    by (simp only: step ih [of "cs @ [c1, c2]"])
  also have "\<dots> = cs @ ([c1, c2] @ fst (addConfetti_loop b n r c e ic (Suc i) [] w2))"
    by simp
  also have "[c1, c2] @ fst (addConfetti_loop b n r c e ic (Suc i) [] w2)
               = fst (addConfetti_loop b n r c e ic i [] w)"
    using step [of "[]"] ih [of "[c1, c2]"] by simp
  finally show ?case .
qed

lemma addConfetti_loop_world_indep:
  "snd (addConfetti_loop b n r c e ic i cs w) = snd (addConfetti_loop b n r c e ic i [] w)"
proof (induction "nat \<lceil>n / 2\<rceil> - i" arbitrary: i cs w)
  case 0
  then have "\<not> real i < n / 2"
    by linarith
  then show ?case
    by (simp add: addConfetti_loop_unfold [of b n r c e ic i])
next
  case (Suc d)
  then have lt: "real i < n / 2"
    by linarith
  have d: "d = nat \<lceil>n / 2\<rceil> - Suc i"
    using Suc.hyps(2) by simp
  define c1 where "c1 = fst (newConfetti \<lparr>vec_x = 0, vec_y = b\<rparr> Right r c e ic w)"
  define w1 where "w1 = snd (newConfetti \<lparr>vec_x = 0, vec_y = b\<rparr> Right r c e ic w)"
  define c2 where "c2 = fst (newConfetti \<lparr>vec_x = innerWidth w, vec_y = b\<rparr> Left r c e ic w1)"
  define w2 where "w2 = snd (newConfetti \<lparr>vec_x = innerWidth w, vec_y = b\<rparr> Left r c e ic w1)"
  have step: "addConfetti_loop b n r c e ic i xs w
                = addConfetti_loop b n r c e ic (Suc i) (xs @ [c1, c2]) w2" for xs
    using lt by (subst addConfetti_loop_unfold) (simp add: c1_def c2_def w1_def w2_def)
  have ih: "snd (addConfetti_loop b n r c e ic (Suc i) xs w2)
              = snd (addConfetti_loop b n r c e ic (Suc i) [] w2)" for xs
    by (rule Suc.hyps(1) [OF d])
  show ?case
    using step [of cs] step [of "[]"] ih [of "cs @ [c1, c2]"] ih [of "[c1, c2]"] by simp
qed

lemma burst_shape:
  "length (fst (addConfetti_loop b n r c e ic i [] w)) = 2 * (nat \<lceil>n / 2\<rceil> - i)
   \<and> length (filter (\<lambda>p. direction p = Right) (fst (addConfetti_loop b n r c e ic i [] w)))
       = nat \<lceil>n / 2\<rceil> - i
   \<and> length (filter (\<lambda>p. direction p = Left) (fst (addConfetti_loop b n r c e ic i [] w)))
       = nat \<lceil>n / 2\<rceil> - i
   \<and> (\<forall>p \<in> set (fst (addConfetti_loop b n r c e ic i [] w)).
         launchedFrom \<lparr>vec_x = (if direction p = Left then innerWidth w else 0), vec_y = b\<rparr>
           (direction p) r c e ic w p)"
proof (induction "nat \<lceil>n / 2\<rceil> - i" arbitrary: i w)
  case 0
  then have "\<not> real i < n / 2"
    by linarith
  then show ?case
    using 0 by (simp add: addConfetti_loop_unfold [of b n r c e ic i])
next
  case (Suc d)
  then have lt: "real i < n / 2"
    by linarith
  have d: "d = nat \<lceil>n / 2\<rceil> - Suc i"
    using Suc.hyps(2) by simp
  define c1 where "c1 = fst (newConfetti \<lparr>vec_x = 0, vec_y = b\<rparr> Right r c e ic w)"
  define w1 where "w1 = snd (newConfetti \<lparr>vec_x = 0, vec_y = b\<rparr> Right r c e ic w)"
  define c2 where "c2 = fst (newConfetti \<lparr>vec_x = innerWidth w, vec_y = b\<rparr> Left r c e ic w1)"
  define w2 where "w2 = snd (newConfetti \<lparr>vec_x = innerWidth w, vec_y = b\<rparr> Left r c e ic w1)"
  define rest where "rest = fst (addConfetti_loop b n r c e ic (Suc i) [] w2)"
  have win1: "innerWidth w1 = innerWidth w" "innerHeight w1 = innerHeight w"
    "devicePixelRatio w1 = devicePixelRatio w"
    by (simp_all add: w1_def newConfetti_window)
  have win2: "innerWidth w2 = innerWidth w" "innerHeight w2 = innerHeight w"
    "devicePixelRatio w2 = devicePixelRatio w"
    by (simp_all add: w2_def newConfetti_window win1)
  have "addConfetti_loop b n r c e ic i [] w
          = addConfetti_loop b n r c e ic (Suc i) ([] @ [c1, c2]) w2"
    using lt by (subst addConfetti_loop_unfold) (simp add: c1_def c2_def w1_def w2_def)
  then have new: "fst (addConfetti_loop b n r c e ic i [] w) = [c1, c2] @ rest"
    using addConfetti_loop_append [of b n r c e ic "Suc i" "[c1, c2]" w2]
    by (simp add: rest_def)
  have dir: "direction c1 = Right" "direction c2 = Left"
    by (simp_all add: c1_def c2_def newConfetti_fields)
  have l1: "launchedFrom \<lparr>vec_x = 0, vec_y = b\<rparr> Right r c e ic w c1"
    unfolding c1_def by (rule launchedFrom_newConfetti)
  have "launchedFrom \<lparr>vec_x = innerWidth w, vec_y = b\<rparr> Left r c e ic w1 c2"
    unfolding c2_def by (rule launchedFrom_newConfetti)
  then have l2: "launchedFrom \<lparr>vec_x = innerWidth w, vec_y = b\<rparr> Left r c e ic w c2"
    by (rule launchedFrom_same_window) (simp_all add: win1)
  have ih: "length rest = 2 * d"
    "length (filter (\<lambda>p. direction p = Right) rest) = d"
    "length (filter (\<lambda>p. direction p = Left) rest) = d"
    "\<forall>p \<in> set rest.
         launchedFrom \<lparr>vec_x = (if direction p = Left then innerWidth w2 else 0), vec_y = b\<rparr>
           (direction p) r c e ic w2 p"
    using Suc.hyps(1) [OF d, of w2] by (simp_all add: rest_def d)
  have l3: "launchedFrom \<lparr>vec_x = (if direction p = Left then innerWidth w else 0), vec_y = b\<rparr>
              (direction p) r c e ic w p" if "p \<in> set rest" for p
  proof -
    have "launchedFrom \<lparr>vec_x = (if direction p = Left then innerWidth w else 0), vec_y = b\<rparr>
              (direction p) r c e ic w2 p"
      using ih(4) that by (auto simp add: win2)
    then show ?thesis
      by (rule launchedFrom_same_window) (simp_all add: win2)
  qed
  have k: "nat \<lceil>n / 2\<rceil> - i = Suc d"
    using Suc.hyps(2) by simp
  show ?case
    unfolding new k using dir l1 l2 l3 ih(1,2,3) by simp
qed

lemma addConfetti_loop_first:
  assumes "0 < n"
  shows "fst (addConfetti_loop b n r c e ic 0 [] w) \<noteq> []
       \<and> hd (fst (addConfetti_loop b n r c e ic 0 [] w))
           = fst (newConfetti \<lparr>vec_x = 0, vec_y = b\<rparr> Right r c e ic w)"
proof -
  have lt: "real 0 < n / 2"
    using assms by simp
  have "fst (addConfetti_loop b n r c e ic 0 [] w)
          = fst (addConfetti_loop b n r c e ic (Suc 0)
              ([] @ [fst (newConfetti \<lparr>vec_x = 0, vec_y = b\<rparr> Right r c e ic w),
                     fst (newConfetti \<lparr>vec_x = innerWidth w, vec_y = b\<rparr> Left r c e ic
                            (snd (newConfetti \<lparr>vec_x = 0, vec_y = b\<rparr> Right r c e ic w)))])
              (snd (newConfetti \<lparr>vec_x = innerWidth w, vec_y = b\<rparr> Left r c e ic
                            (snd (newConfetti \<lparr>vec_x = 0, vec_y = b\<rparr> Right r c e ic w)))))"
    using lt by (subst addConfetti_loop_unfold) (simp only: if_True)
  then show ?thesis
    by (simp add: addConfetti_loop_append [of _ _ _ _ _ _ _ "[_, _]"])
qed

lemma addConfetti_confetti:
  "confetti (fst (addConfetti cfg m w)) =
     confetti m @ fst (addConfetti_loop (5 * innerHeight w / 7) (fst (mergeConfig cfg))
        (fst (snd (mergeConfig cfg))) (fst (snd (snd (mergeConfig cfg))))
        (fst (snd (snd (snd (mergeConfig cfg))))) (snd (snd (snd (snd (mergeConfig cfg))))) 0 [] w)"
  using addConfetti_loop_append [of _ _ _ _ _ _ 0 "confetti m" w]
  by (simp add: addConfetti_def Let_def case_prod_beta)

lemma addConfetti_world:
  "snd (addConfetti cfg m w) =
     snd (addConfetti_loop (5 * innerHeight w / 7) (fst (mergeConfig cfg))
        (fst (snd (mergeConfig cfg))) (fst (snd (snd (mergeConfig cfg))))
        (fst (snd (snd (snd (mergeConfig cfg))))) (snd (snd (snd (snd (mergeConfig cfg))))) 0 [] w)"
  using addConfetti_loop_world_indep [of _ _ _ _ _ _ 0 "confetti m" w]
  by (simp add: addConfetti_def Let_def case_prod_beta)

lemma addConfetti_other_fields:
  "canvas_width (fst (addConfetti cfg m w)) = canvas_width m"
  "canvas_height (fst (addConfetti cfg m w)) = canvas_height m"
  "lastUpdated (fst (addConfetti cfg m w)) = lastUpdated m"
  by (simp_all add: addConfetti_def Let_def case_prod_beta)

lemma newConfettiManager_confetti: "confetti (fst (newConfettiManager w)) = []"
  by (simp add: newConfettiManager_def Let_def case_prod_beta resizeCanvas_def)

subsection \<open>The frame step\<close>

lemma loop_confetti:
  "confetti (fst (loop m w)) =
     filter (\<lambda>q. isVisible q (canvas_height m))
       (map (updatePosition (clock w 0 - lastUpdated m) (clock w 0)) (confetti m))"
  by (simp add: loop_def Date_now_def Let_def)

lemma loop_canvas:
  "canvas_height (fst (loop m w)) = canvas_height m"
  "canvas_width (fst (loop m w)) = canvas_width m"
  by (simp_all add: loop_def Date_now_def Let_def)




subsection \<open>The sample inputs\<close>



lemma mergeConfig_sampleConfig:
  "mergeConfig (sampleConfig n) = (n, 4, defaultColors, [], Null)"
  by (simp add: mergeConfig_def sampleConfig_def)

lemma sampleWorld_randoms: "randoms sampleWorld = (\<lambda>n. 1 / 2)"
  by (simp add: sampleWorld_def)

lemma sampleWorld_scale: "getScaleFactor sampleWorld = 1"
  by (simp add: getScaleFactor_def sampleWorld_def)

lemma sample_rotationSpeed:
  "rotationSpeed (fst (newConfetti origin d rad cols [] Null sampleWorld)) = 0.05"
  by (simp add: newConfetti_rotationSpeed_const [OF sampleWorld_randoms] sampleWorld_scale)

lemma sample_empty_emoji:
  "emoji (fst (newConfetti origin d rad cols [''''] Null sampleWorld)) = Val ''''"
  by (simp add: newConfetti_emoji_const [OF sampleWorld_randoms])

lemma sample_color:
  "color (fst (newConfetti origin d rad defaultColors [] Null sampleWorld)) = Val ''#03fca5''"
  by (simp add: newConfetti_color_const [OF sampleWorld_randoms] defaultColors_def)

lemma sample_emoji:
  "emoji (fst (newConfetti origin d rad cols [''A'', ''B''] Null sampleWorld)) = Val ''B''"
  by (simp add: newConfetti_emoji_const [OF sampleWorld_randoms])

section \<open>The claims\<close>

subsection \<open>C1: the shape of a burst\<close>

text \<open>
  Claim C1, as the code has it. With \<open>k = \<lceil>count / 2\<rceil>\<close> for a positive count and \<open>k = 0\<close>
  otherwise (\<open>i < count / 2\<close> compares numbers, so an odd count rounds up per side),
  \<open>addConfetti\<close> keeps the particles that were there and appends exactly \<open>2 * k\<close> new
  ones: \<open>k\<close> with direction right, built by the constructor for the launch point
  \<open>(0, 5/7 * innerHeight)\<close>, and \<open>k\<close> with direction left, built for the launch point
  \<open>(innerWidth, 5/7 * innerHeight)\<close>; both launch points are in viewport units, without
  the device pixel ratio. The count and the visual parameters are those of the
  configuration merged with the defaults.
\<close>

theorem addConfetti_burst:
  "let (num, rad, cols, emos, icon) = mergeConfig cfg;
       k = nat \<lceil>num / 2\<rceil>;
       old = confetti m;
       after = confetti (fst (addConfetti cfg m w));
       new = drop (length old) after
   in take (length old) after = old
    \<and> length after = length old + 2 * k
    \<and> length (filter (\<lambda>p. direction p = Right) new) = k
    \<and> length (filter (\<lambda>p. direction p = Left) new) = k
    \<and> (\<forall>p \<in> set new.
          launchedFrom \<lparr>vec_x = (if direction p = Left then innerWidth w else 0),
                        vec_y = 5 * innerHeight w / 7\<rparr> (direction p) rad cols emos icon w p)"
  using burst_shape [of "5 * innerHeight w / 7" "fst (mergeConfig cfg)"
      "fst (snd (mergeConfig cfg))" "fst (snd (snd (mergeConfig cfg)))"
      "fst (snd (snd (snd (mergeConfig cfg))))" "snd (snd (snd (snd (mergeConfig cfg))))" 0 w]
  by (simp add: Let_def case_prod_beta addConfetti_confetti)

text \<open>
  A count of 10 on an empty manager gives 10 particles, 5 per direction, launched from
  \<open>(0, 5400/7)\<close> and \<open>(1920, 5400/7)\<close> in the sample window; a count of 7 added to one
  existing particle gives \<open>1 + 8\<close>.
\<close>

theorem addConfetti_burst_witness:
  "length (confetti (fst (addConfetti (sampleConfig 10) (sampleManager []) sampleWorld))) = 10
   \<and> length (filter (\<lambda>p. direction p = Right)
        (confetti (fst (addConfetti (sampleConfig 10) (sampleManager []) sampleWorld)))) = 5
   \<and> length (filter (\<lambda>p. direction p = Left)
        (confetti (fst (addConfetti (sampleConfig 10) (sampleManager []) sampleWorld)))) = 5
   \<and> hd (confetti (fst (addConfetti (sampleConfig 10) (sampleManager []) sampleWorld)))
       = fst (newConfetti \<lparr>vec_x = 0, vec_y = 5400 / 7\<rparr> Right 4 defaultColors [] Null sampleWorld)
   \<and> launchedFrom \<lparr>vec_x = 0, vec_y = 5400 / 7\<rparr> Right 4 defaultColors [] Null sampleWorld
        (hd (confetti (fst (addConfetti (sampleConfig 10) (sampleManager []) sampleWorld))))
   \<and> length (confetti (fst (addConfetti (sampleConfig 7)
        (sampleManager [sampleConfetti]) sampleWorld))) = 9"
proof -
  define A where "A = confetti (fst (addConfetti (sampleConfig 10) (sampleManager []) sampleWorld))"
  have w: "innerWidth sampleWorld = 1920" "innerHeight sampleWorld = 1080"
    by (simp_all add: sampleWorld_def)
  have m: "confetti (sampleManager cs) = cs" for cs
    by (simp add: sampleManager_def)
  have a: "nat \<lceil>(10::real) / 2\<rceil> = 5" "nat \<lceil>(7::real) / 2\<rceil> = 4"
    by simp_all
  have f: "A \<noteq> [] \<and> hd A = fst (newConfetti \<lparr>vec_x = 0, vec_y = 5400 / 7\<rparr> Right 4 defaultColors []
                                    Null sampleWorld)"
    using addConfetti_loop_first [of 10 "5 * innerHeight sampleWorld / 7" 4 defaultColors "[]" Null
        sampleWorld]
    by (simp add: A_def addConfetti_confetti mergeConfig_sampleConfig m w)
  then have d: "direction (hd A) = Right"
    by (simp add: newConfetti_fields)
  have "A \<noteq> []"
    using f by (rule conjunct1)
  then have i: "hd A \<in> set A"
    by (rule hd_in_set)
  have t: "length A = 10 \<and> length (filter (\<lambda>p. direction p = Right) A) = 5
         \<and> length (filter (\<lambda>p. direction p = Left) A) = 5
         \<and> (\<forall>p \<in> set A.
               launchedFrom \<lparr>vec_x = (if direction p = Left then 1920 else 0), vec_y = 5400 / 7\<rparr>
                 (direction p) 4 defaultColors [] Null sampleWorld p)"
    using addConfetti_burst [of "sampleConfig 10" "sampleManager []" sampleWorld]
    by (simp add: Let_def mergeConfig_sampleConfig w m a A_def cong: if_cong)
  then have l: "launchedFrom \<lparr>vec_x = 0, vec_y = 5400 / 7\<rparr> Right 4 defaultColors [] Null sampleWorld
                 (hd A)"
    using d i by fastforce
  have s: "length (confetti (fst (addConfetti (sampleConfig 7)
             (sampleManager [sampleConfetti]) sampleWorld))) = 9"
    using addConfetti_burst [of "sampleConfig 7" "sampleManager [sampleConfetti]" sampleWorld]
    by (simp add: Let_def mergeConfig_sampleConfig m a)
  show ?thesis
    unfolding A_def [symmetric] using t f l s by simp
qed

text \<open>
  Claim C1 as the specification words it (\<open>2 * \<lfloor>count / 2\<rfloor>\<close> new particles,
  \<open>\<lfloor>count / 2\<rfloor>\<close> per side) fails for the count 5: the loop runs for \<open>i = 0, 1, 2\<close> and
  leaves 6 particles, 3 per side.
\<close>

theorem addConfetti_odd_count_counterexample:
  "length (confetti (fst (addConfetti (sampleConfig 5) (sampleManager []) sampleWorld))) = 6
   \<and> length (confetti (fst (addConfetti (sampleConfig 5) (sampleManager []) sampleWorld)))
       \<noteq> length (confetti (sampleManager [])) + 2 * nat \<lfloor>(5::real) / 2\<rfloor>
   \<and> length (filter (\<lambda>p. direction p = Right)
        (confetti (fst (addConfetti (sampleConfig 5) (sampleManager []) sampleWorld))))
       \<noteq> nat \<lfloor>(5::real) / 2\<rfloor>"
proof -
  have m: "confetti (sampleManager []) = []"
    by (simp add: sampleManager_def)
  have a: "nat \<lceil>(5::real) / 2\<rceil> = 3" "nat \<lfloor>(5::real) / 2\<rfloor> = 2"
    by simp_all
  show ?thesis
    using burst_shape [of "5 * innerHeight sampleWorld / 7" 5 4 defaultColors "[]" Null 0 sampleWorld]
    by (simp add: addConfetti_confetti mergeConfig_sampleConfig m a)
qed

subsection \<open>C2: vertical position by age, horizontal position by frame\<close>

text \<open>
  Claim C2. After any earlier history of the particle (updates and icon load), an update with
  arguments \<open>deltaTime\<close> and \<open>currentTime\<close> sets the vertical position to
  \<open>initialPosition.y - speed.y * absSin * elapsed + 0.000625 * elapsed\<^sup>2\<close> with
  \<open>elapsed = currentTime - createdAt\<close>, whatever \<open>deltaTime\<close> and the history were;
  the horizontal position grows by \<open>speed.x * (\<plusminus> absCos) * deltaTime\<close>, where \<open>speed.x\<close>
  is the value after this call's drag step and the sign is negative for direction left.
\<close>

theorem updatePosition_vertical_by_age_horizontal_by_frame:
  "let q = life es p;
       r = updatePosition deltaTime currentTime q;
       elapsed = currentTime - createdAt p
   in vec_y (position r) = vec_y (initialPosition p) - vec_y (speed p) * absSin p * elapsed
                             + 0.000625 * elapsed ^ 2
    \<and> vec_x (position r) = vec_x (position q)
         + vec_x (speed r) * (if direction p = Left then - absCos p else absCos p) * deltaTime
    \<and> vec_x (speed r) = (if vec_x (speed q) > finalSpeedX p
                          then vec_x (speed q) - dragCoefficient p * deltaTime
                          else vec_x (speed q))"
  by (simp add: Let_def updatePosition_position_y updatePosition_position_x
      updatePosition_speed_x life_fixed)

text \<open>
The statement at the sample particle, third event an update at age 1016 ms.
\<close>

theorem updatePosition_vertical_by_age_horizontal_by_frame_witness:
  "let r = updatePosition 16 1016 (life [Update 16 1000, IconLoaded] sampleConfetti)
   in vec_y (position r) = 700 - 1 * 0.8 * 1016 + 0.000625 * 1016 ^ 2
    \<and> vec_y (position r) = 532.36
    \<and> vec_x (position r) = 18.87744"
  using updatePosition_vertical_by_age_horizontal_by_frame
    [where deltaTime = 16 and currentTime = 1016 and es = "[Update 16 1000, IconLoaded]"
       and p = sampleConfetti]
  by (simp add: Let_def sampleConfetti_def updatePosition_def onload_def)

subsection \<open>C3: the frame step keeps the visible particles\<close>

text \<open>
  Claim C3. \<open>isVisible\<close> holds exactly when \<open>position.y < canvasHeight + 100\<close>. A frame
  step keeps exactly the updated particles that satisfy it: a particle whose update makes
  the test false is dropped in that same frame, and every particle of the collection after
  the frame is within the bound.
\<close>

theorem loop_keeps_only_visible:
  "(isVisible p h \<longleftrightarrow> vec_y (position p) < h + 100)
   \<and> confetti (fst (loop m w)) =
       filter (\<lambda>q. vec_y (position q) < canvas_height m + 100)
         (map (updatePosition (clock w 0 - lastUpdated m) (clock w 0)) (confetti m))
   \<and> (\<forall>c \<in> set (confetti m).
         \<not> isVisible (updatePosition (clock w 0 - lastUpdated m) (clock w 0) c) (canvas_height m)
         \<longrightarrow> updatePosition (clock w 0 - lastUpdated m) (clock w 0) c
               \<notin> set (confetti (fst (loop m w))))
   \<and> (\<forall>q \<in> set (confetti (fst (loop m w))).
         isVisible q (canvas_height (fst (loop m w))))"
  by (simp add: loop_confetti loop_canvas isVisible_def)

text \<open>
  A collection of two sample particles, the second one 3000 ms old at the frame: the first
  stays at height 525, the second reaches 3925 and is removed.
\<close>

theorem loop_keeps_only_visible_witness:
  "let m = sampleManager [sampleConfetti, sampleConfetti\<lparr>createdAt := - 2000\<rparr>];
       m' = fst (loop m sampleWorld)
   in map (\<lambda>q. vec_y (position q)) (confetti m') = [525]
    \<and> vec_y (position (updatePosition 16 1000 (sampleConfetti\<lparr>createdAt := - 2000\<rparr>))) = 3925
    \<and> \<not> isVisible (updatePosition 16 1000 (sampleConfetti\<lparr>createdAt := - 2000\<rparr>)) 2160
    \<and> updatePosition 16 1000 (sampleConfetti\<lparr>createdAt := - 2000\<rparr>) \<notin> set (confetti m')
    \<and> list_all (\<lambda>q. isVisible q 2160) (confetti m')"
proof -
  have a: "vec_y (position (updatePosition 16 1000 sampleConfetti)) = 525"
    by (simp add: updatePosition_position_y sampleConfetti_def)
  have b: "vec_y (position (updatePosition 16 1000 (sampleConfetti\<lparr>createdAt := - 2000\<rparr>))) = 3925"
    by (simp add: updatePosition_position_y sampleConfetti_def)
  have c: "updatePosition 16 1000 (sampleConfetti\<lparr>createdAt := - 2000\<rparr>)
             \<noteq> updatePosition 16 1000 sampleConfetti"
    using a b by auto
  show ?thesis
    using c loop_keeps_only_visible [of sampleConfetti 2160
        "sampleManager [sampleConfetti, sampleConfetti\<lparr>createdAt := - 2000\<rparr>]" sampleWorld]
    by (simp add: Let_def sampleManager_def sampleWorld_def a b isVisible_def list_all_iff)
qed

subsection \<open>C4: the horizontal speed below its floor\<close>

text \<open>
  Claim C4. Once \<open>speed.x \<le> finalSpeedX\<close> holds, no later sequence of updates (with any
  \<open>deltaTime\<close>, large ones included) changes \<open>speed.x\<close>; in particular it never exceeds
  \<open>finalSpeedX\<close> again.
\<close>

theorem speed_x_never_exceeds_floor_again:
  assumes "vec_x (speed p) \<le> finalSpeedX p"
  shows "vec_x (speed (life es p)) = vec_x (speed p)
       \<and> vec_x (speed (life es p)) \<le> finalSpeedX (life es p)"
  using assms
proof (induction es arbitrary: p)
  case Nil
  then show ?case by simp
next
  case (Cons e es)
  have "vec_x (speed (occur e p)) \<le> finalSpeedX (occur e p)"
    using Cons.prems by (simp add: occur_speed_floor occur_fixed)
  from Cons.IH [OF this] show ?case
    using Cons.prems by (simp add: occur_speed_floor)
qed

text \<open>
  One update of 100 seconds takes the sample particle from speed 1 to \<open>-69\<close>, below its
  floor 0.4; the later updates leave it there.
\<close>

theorem speed_x_never_exceeds_floor_again_witness:
  "let p = updatePosition 100000 100000 sampleConfetti;
       q = life [Update 100000 200000, IconLoaded, Update 16 200016] p
   in vec_x (speed p) = - 69 \<and> finalSpeedX p = 0.4 \<and> vec_x (speed p) \<le> finalSpeedX p
    \<and> vec_x (speed q) = - 69 \<and> vec_x (speed q) \<le> finalSpeedX q"
proof -
  have s: "vec_x (speed (updatePosition 100000 100000 sampleConfetti)) = - 69"
    by (simp add: updatePosition_speed_x sampleConfetti_def)
  have f: "finalSpeedX (updatePosition 100000 100000 sampleConfetti) = 0.4"
    by (simp add: updatePosition_fixed sampleConfetti_def)
  have h: "vec_x (speed (updatePosition 100000 100000 sampleConfetti))
             \<le> finalSpeedX (updatePosition 100000 100000 sampleConfetti)"
    by (simp add: s f)
  show ?thesis
    using speed_x_never_exceeds_floor_again [OF h, of "[Update 100000 200000, IconLoaded, Update 16 200016]"]
    by (simp add: Let_def s f)
qed

subsection \<open>C5: the tumble stays in range\<close>

text \<open>
  Claim C5. A particle created with a radius \<open>rad \<ge> 0\<close> has, after any sequence of updates
  with non-negative \<open>deltaTime\<close> (and icon loads), \<open>0 \<le> radius.y \<le> initialRadius = rad\<close>.
  From such a state the next update of a particle without glyph moves \<open>radius.y\<close> by
  \<open>deltaTime * rotationSpeed\<close> (the decayed rotation speed, floored at 0): downwards it
  stops at 0 and the direction becomes up, upwards it stops at \<open>initialRadius\<close> and the
  direction becomes down.
\<close>

theorem radius_y_stays_in_range:
  assumes "0 \<le> rad" and "\<forall>e \<in> set es. 0 \<le> deltaOf e"
  shows "let p = life es (fst (newConfetti initPos dir rad cols emos icon w));
             step = deltaTime * max (rotationSpeed p - 0.00001 * deltaTime) 0;
             p' = updatePosition deltaTime currentTime p
         in initialRadius p = rad \<and> 0 \<le> vec_y (radius p) \<and> vec_y (radius p) \<le> rad
          \<and> (\<not> truthy (emoji p) \<and> svgIcon p = None \<and> radiusYDirection p = Down \<longrightarrow>
                vec_y (radius p') = max 0 (vec_y (radius p) - step)
              \<and> radiusYDirection p' = (if vec_y (radius p) - step \<le> 0 then Up else Down))
          \<and> (\<not> truthy (emoji p) \<and> svgIcon p = None \<and> radiusYDirection p = Up \<longrightarrow>
                vec_y (radius p') = min rad (vec_y (radius p) + step)
              \<and> radiusYDirection p' = (if vec_y (radius p) + step \<ge> rad then Down else Up))"
proof -
  define p where "p = life es (fst (newConfetti initPos dir rad cols emos icon w))"
  have i: "initialRadius p = rad"
    by (simp add: p_def life_fixed newConfetti_fields)
  have b: "0 \<le> vec_y (radius p) \<and> vec_y (radius p) \<le> rad"
    using life_radius_bounds [OF assms(2), of "fst (newConfetti initPos dir rad cols emos icon w)"]
      assms(1)
    by (simp add: p_def newConfetti_fields)
  show ?thesis
    unfolding Let_def p_def [symmetric]
    using i b updatePosition_tumble_down [of p deltaTime currentTime]
      updatePosition_tumble_up [of p deltaTime currentTime]
    by simp
qed

text \<open>
  A plain particle of radius 4 in the sample world has rotation speed 0.05. An update of
  100 ms takes \<open>radius.y\<close> down to the clamp 0 and flips the direction; the next update of
  16 ms raises it to 0.78144.
\<close>

theorem radius_y_stays_in_range_witness:
  "(0::real) \<le> 4
   \<and> 0 \<le> deltaOf (Update 100 1100)
   \<and> (let p0 = fst (newConfetti \<lparr>vec_x = 0, vec_y = 0\<rparr> Right 4 defaultColors [] Null sampleWorld);
           p1 = updatePosition 100 1100 p0;
           p2 = updatePosition 16 1116 p1
       in vec_y (radius p0) = 4 \<and> radiusYDirection p0 = Down
        \<and> vec_y (radius p1) = 0 \<and> radiusYDirection p1 = Up
        \<and> vec_y (radius p2) = 0.78144 \<and> radiusYDirection p2 = Up
        \<and> 0 \<le> vec_y (radius p2) \<and> vec_y (radius p2) \<le> initialRadius p2)"
proof -
  define p0 where
    "p0 = fst (newConfetti \<lparr>vec_x = 0, vec_y = 0\<rparr> Right 4 defaultColors [] Null sampleWorld)"
  have r0: "rotationSpeed p0 = 0.05"
    by (simp add: p0_def sample_rotationSpeed)
  have f0: "\<not> truthy (emoji p0)" "svgIcon p0 = None" "radiusYDirection p0 = Down"
    "vec_y (radius p0) = 4"
    by (simp_all add: p0_def newConfetti_fields newConfetti_emoji_Null)
  have h1: "(0::real) \<le> 4"
    by simp
  have h2: "\<forall>e \<in> set []. 0 \<le> deltaOf e"
    by simp
  have h3: "\<forall>e \<in> set [Update 100 1100]. 0 \<le> deltaOf e"
    by simp
  have s1: "vec_y (radius (updatePosition 100 1100 p0)) = 0
          \<and> radiusYDirection (updatePosition 100 1100 p0) = Up"
    using radius_y_stays_in_range [OF h1 h2, of "\<lparr>vec_x = 0, vec_y = 0\<rparr>" Right defaultColors "[]"
        Null sampleWorld 100 1100] f0 r0
    by (simp add: Let_def p0_def [symmetric])
  have r1: "rotationSpeed (updatePosition 100 1100 p0) = 0.049"
    using f0 r0 by (simp add: updatePosition_rotationSpeed)
  have f1: "\<not> truthy (emoji (updatePosition 100 1100 p0))" "svgIcon (updatePosition 100 1100 p0) = None"
    using f0 by (simp_all add: updatePosition_fixed)
  have s2: "vec_y (radius (updatePosition 16 1116 (updatePosition 100 1100 p0))) = 0.78144
          \<and> radiusYDirection (updatePosition 16 1116 (updatePosition 100 1100 p0)) = Up
          \<and> initialRadius (updatePosition 100 1100 p0) = 4"
    using radius_y_stays_in_range [OF h1 h3, of "\<lparr>vec_x = 0, vec_y = 0\<rparr>" Right defaultColors "[]"
        Null sampleWorld 16 1116] f1 r1 s1
    by (simp add: Let_def p0_def [symmetric])
  show ?thesis
    using s1 s2 f0 by (simp add: Let_def p0_def [symmetric] updatePosition_fixed)
qed

subsection \<open>C6: reset and start\<close>

text \<open>
  Claim C6. Whatever particles the manager holds, \<open>resetAndStart\<close> leaves exactly the
  collection (and the random source and clock) that \<open>addConfetti\<close> with the same
  configuration produces on a manager with an empty collection, started from the same
  random source and clock. \<open>addConfetti\<close> itself is cumulative: its result is the old
  collection followed by that burst. Canvas and frame clock are not touched.
\<close>

theorem resetAndStart_fresh_burst:
  assumes "confetti m0 = []"
  shows "confetti (fst (resetAndStart cfg m w)) = confetti (fst (addConfetti cfg m0 w))
       \<and> snd (resetAndStart cfg m w) = snd (addConfetti cfg m0 w)
       \<and> confetti (fst (addConfetti cfg m w)) = confetti m @ confetti (fst (resetAndStart cfg m w))
       \<and> canvas_width (fst (resetAndStart cfg m w)) = canvas_width m
       \<and> canvas_height (fst (resetAndStart cfg m w)) = canvas_height m
       \<and> lastUpdated (fst (resetAndStart cfg m w)) = lastUpdated m"
  using assms
  by (simp add: resetAndStart_def addConfetti_confetti addConfetti_world addConfetti_other_fields)

text \<open>
  A manager with three particles and a freshly constructed one, count 10: ten particles
  after \<open>resetAndStart\<close>, thirteen after \<open>addConfetti\<close>.
\<close>

theorem resetAndStart_fresh_burst_witness:
  "confetti (fst (newConfettiManager sampleWorld)) = []
   \<and> confetti (fst (resetAndStart (sampleConfig 10)
        (sampleManager [sampleConfetti, sampleConfetti, sampleConfetti]) sampleWorld))
       = confetti (fst (addConfetti (sampleConfig 10) (fst (newConfettiManager sampleWorld))
                         sampleWorld))
   \<and> length (confetti (fst (resetAndStart (sampleConfig 10)
        (sampleManager [sampleConfetti, sampleConfetti, sampleConfetti]) sampleWorld))) = 10
   \<and> length (confetti (fst (addConfetti (sampleConfig 10)
        (sampleManager [sampleConfetti, sampleConfetti, sampleConfetti]) sampleWorld))) = 13"
proof -
  have e: "confetti (fst (newConfettiManager sampleWorld)) = []"
    by (rule newConfettiManager_confetti)
  have a: "nat \<lceil>(10::real) / 2\<rceil> = 5"
    by simp
  have "length (fst (addConfetti_loop (5 * innerHeight sampleWorld / 7) 10 4 defaultColors []
                       Null 0 [] sampleWorld)) = 2 * (nat \<lceil>(10::real) / 2\<rceil> - 0)"
    using burst_shape [of "5 * innerHeight sampleWorld / 7" 10 4 defaultColors "[]" Null 0 sampleWorld]
    by (rule conjunct1)
  then have l: "length (fst (addConfetti_loop (5 * innerHeight sampleWorld / 7) 10 4 defaultColors []
                          Null 0 [] sampleWorld)) = 10"
    by (simp add: a)
  have t: "confetti (fst (resetAndStart (sampleConfig 10)
              (sampleManager [sampleConfetti, sampleConfetti, sampleConfetti]) sampleWorld))
            = confetti (fst (addConfetti (sampleConfig 10) (fst (newConfettiManager sampleWorld))
                         sampleWorld))"
    using resetAndStart_fresh_burst [OF e, of "sampleConfig 10"
        "sampleManager [sampleConfetti, sampleConfetti, sampleConfetti]" sampleWorld]
    by (rule conjunct1)
  have l0: "length (confetti (fst (addConfetti (sampleConfig 10)
              (fst (newConfettiManager sampleWorld)) sampleWorld))) = 10"
    using l e by (simp add: addConfetti_confetti mergeConfig_sampleConfig)
  have l3: "length (confetti (fst (addConfetti (sampleConfig 10)
              (sampleManager [sampleConfetti, sampleConfetti, sampleConfetti]) sampleWorld))) = 13"
    using l by (simp add: addConfetti_confetti mergeConfig_sampleConfig sampleManager_def)
  show ?thesis
    using e t l0 l3 by (simp only: simp_thms)
qed

subsection \<open>C7: resize\<close>




subsection \<open>C8: visual identity at creation\<close>

text \<open>
  Claim C8. With \<open>Math.random\<close> in \<open>[0, 1)\<close>, the constructor sets \<open>color\<close> to \<open>null\<close>
  exactly when \<open>emojis\<close> is non-empty or an icon reference (a non-empty string) is given;
  otherwise, for a non-empty \<open>colors\<close>, \<open>color\<close> is one of its elements. \<open>emoji\<close> is an
  element of \<open>emojis\<close> when that is non-empty and \<open>null\<close> otherwise. The ready icon is
  \<open>null\<close> at creation, so no new particle has a color together with an emoji or a ready
  icon.
\<close>

theorem newConfetti_visual_identity:
  assumes "unitRandoms w"
  shows "let p = fst (newConfetti initPos dir rad cols emos icon w)
         in (color p = Null \<longleftrightarrow> emos \<noteq> [] \<or> truthy icon)
          \<and> (emos = [] \<and> \<not> truthy icon \<and> cols \<noteq> [] \<longrightarrow> (\<exists>c \<in> set cols. color p = Val c))
          \<and> (emos \<noteq> [] \<longrightarrow> (\<exists>e \<in> set emos. emoji p = Val e))
          \<and> (emos = [] \<longrightarrow> emoji p = Null)
          \<and> svgIcon p = None
          \<and> \<not> (color p \<noteq> Null \<and> (emoji p \<noteq> Null \<or> svgIcon p \<noteq> None))"
proof -
  let ?p = "fst (newConfetti initPos dir rad cols emos icon w)"
  have a: "color ?p = Null \<longleftrightarrow> emos \<noteq> [] \<or> truthy icon"
    by (rule newConfetti_color)
  have b: "emos = [] \<and> \<not> truthy icon \<and> cols \<noteq> [] \<longrightarrow> (\<exists>c \<in> set cols. color ?p = Val c)"
    using newConfetti_color_member [OF assms, of cols emos icon initPos dir rad] by auto
  have c: "emos \<noteq> [] \<longrightarrow> (\<exists>e \<in> set emos. emoji ?p = Val e)"
    using newConfetti_emoji_member [OF assms, of emos initPos dir rad cols icon] by auto
  have d: "emos = [] \<longrightarrow> emoji ?p = Null"
    by (simp add: newConfetti_emoji_Null)
  have e: "svgIcon ?p = None"
    by (simp add: newConfetti_fields)
  have f: "\<not> (color ?p \<noteq> Null \<and> (emoji ?p \<noteq> Null \<or> svgIcon ?p \<noteq> None))"
    using a d e by auto
  show ?thesis
    unfolding Let_def using a b c d e f by blast
qed

text \<open>
  In the sample world the random index is the middle one: a plain particle gets the fifth
  default color, a particle with the emojis \<open>A, B\<close> gets \<open>B\<close> and no color.
\<close>

theorem newConfetti_visual_identity_witness:
  "unitRandoms sampleWorld
   \<and> (let p = fst (newConfetti \<lparr>vec_x = 0, vec_y = 0\<rparr> Right 4 defaultColors [] Null sampleWorld);
           q = fst (newConfetti \<lparr>vec_x = 0, vec_y = 0\<rparr> Left 4 defaultColors [''A'', ''B''] Null sampleWorld)
       in color p = Val ''#03fca5'' \<and> emoji p = Null \<and> svgIcon p = None
        \<and> color q = Null \<and> emoji q = Val ''B'' \<and> svgIcon q = None)"
proof -
  have h: "unitRandoms sampleWorld"
    by (simp add: unitRandoms_def sampleWorld_def)
  show ?thesis
    using h sample_color [of "\<lparr>vec_x = 0, vec_y = 0\<rparr>" Right 4]
      sample_emoji [of "\<lparr>vec_x = 0, vec_y = 0\<rparr>" Left 4 defaultColors]
      newConfetti_visual_identity [OF h, of "\<lparr>vec_x = 0, vec_y = 0\<rparr>" Right 4 defaultColors "[]" Null]
      newConfetti_visual_identity [OF h, of "\<lparr>vec_x = 0, vec_y = 0\<rparr>" Left 4 defaultColors "[''A'', ''B'']" Null]
    by (simp add: Let_def)
qed

subsection \<open>C9: a particle with a glyph only moves\<close>

text \<open>
  Claim C9, as the code has it. A particle whose \<open>emoji\<close> is truthy (a non-empty string) or
  whose icon image is ready is changed by an update in \<open>position\<close> and \<open>speed.x\<close> only;
  every sequence of updates leaves \<open>rotationSpeed\<close>, \<open>radius\<close> and \<open>radiusYDirection\<close> as
  they were. A particle created from a non-empty list of non-empty emojis therefore keeps
  \<open>rotationSpeed = 0.01\<close>, the radius \<open>(rad, rad)\<close> and the direction down through all
  updates and icon loads of its life.
\<close>

theorem glyph_particle_only_moves:
  "(truthy (emoji p) \<or> svgIcon p \<noteq> None \<longrightarrow>
      updatePosition deltaTime currentTime p =
        p\<lparr>speed := (speed p)\<lparr>vec_x := vec_x (speed (updatePosition deltaTime currentTime p))\<rparr>,
          position := position (updatePosition deltaTime currentTime p)\<rparr>
    \<and> rotationSpeed (life (map (\<lambda>(d, t). Update d t) us) p) = rotationSpeed p
    \<and> radius (life (map (\<lambda>(d, t). Update d t) us) p) = radius p
    \<and> radiusYDirection (life (map (\<lambda>(d, t). Update d t) us) p) = radiusYDirection p)
   \<and> (unitRandoms w \<and> emos \<noteq> [] \<and> (\<forall>e \<in> set emos. e \<noteq> []) \<longrightarrow>
        (let q = life es (fst (newConfetti initPos dir rad cols emos icon w))
         in truthy (emoji q) \<and> rotationSpeed q = 0.01
          \<and> radius q = \<lparr>vec_x = rad, vec_y = rad\<rparr> \<and> radiusYDirection q = Down))"
proof (intro conjI impI)
  assume g: "truthy (emoji p) \<or> svgIcon p \<noteq> None"
  show "updatePosition deltaTime currentTime p =
        p\<lparr>speed := (speed p)\<lparr>vec_x := vec_x (speed (updatePosition deltaTime currentTime p))\<rparr>,
          position := position (updatePosition deltaTime currentTime p)\<rparr>"
    using g by (rule updatePosition_glyph_frame)
  show "rotationSpeed (life (map (\<lambda>(d, t). Update d t) us) p) = rotationSpeed p"
    using updates_glyph_fixed [OF g] by simp
  show "radius (life (map (\<lambda>(d, t). Update d t) us) p) = radius p"
    using updates_glyph_fixed [OF g] by simp
  show "radiusYDirection (life (map (\<lambda>(d, t). Update d t) us) p) = radiusYDirection p"
    using updates_glyph_fixed [OF g] by simp
next
  assume a: "unitRandoms w \<and> emos \<noteq> [] \<and> (\<forall>e \<in> set emos. e \<noteq> [])"
  define q0 where "q0 = fst (newConfetti initPos dir rad cols emos icon w)"
  have "emoji q0 \<in> Val ` set emos"
    using a newConfetti_emoji_member [of w emos] by (simp add: q0_def)
  then have t: "truthy (emoji q0)"
    using a by auto
  have r: "rotationSpeed q0 = 0.01"
    using a by (simp add: q0_def newConfetti_rotationSpeed_glyph)
  show "let q = life es (fst (newConfetti initPos dir rad cols emos icon w))
        in truthy (emoji q) \<and> rotationSpeed q = 0.01
         \<and> radius q = \<lparr>vec_x = rad, vec_y = rad\<rparr> \<and> radiusYDirection q = Down"
    unfolding Let_def q0_def [symmetric]
    using life_emoji_fixed [OF t, of es] t r
    by (simp add: life_fixed) (simp add: q0_def newConfetti_fields)
qed

text \<open>
  The sample particle with emoji \<open>A\<close>, and a particle constructed with the emojis \<open>A, B\<close>:
  after updates of 16 ms and 100 s nothing but position and speed has changed.
\<close>

theorem glyph_particle_only_moves_witness:
  "truthy (emoji (sampleConfetti\<lparr>emoji := Val ''A'', color := Null, rotationSpeed := 0.01\<rparr>))
   \<and> unitRandoms sampleWorld \<and> [''A'', ''B''] \<noteq> [] \<and> ''A'' \<noteq> [] \<and> ''B'' \<noteq> []
   \<and> (let p = sampleConfetti\<lparr>emoji := Val ''A'', color := Null, rotationSpeed := 0.01\<rparr>;
           p' = life (map (\<lambda>(d, t). Update d t) [(16, 1016), (100000, 101016)]) p;
           q = life [Update 16 1016, IconLoaded, Update 100000 101016]
                 (fst (newConfetti \<lparr>vec_x = 0, vec_y = 0\<rparr> Left 4 defaultColors [''A'', ''B''] Null
                        sampleWorld))
       in rotationSpeed p' = 0.01 \<and> radius p' = \<lparr>vec_x = 4, vec_y = 4\<rparr>
        \<and> radiusYDirection p' = Down
        \<and> vec_y (position (updatePosition 16 1016 p)) = 532.36
        \<and> rotationSpeed (updatePosition 16 1016 p) = 0.01
        \<and> rotationSpeed q = 0.01 \<and> radius q = \<lparr>vec_x = 4, vec_y = 4\<rparr>
        \<and> radiusYDirection q = Down)"
proof -
  define p where "p = sampleConfetti\<lparr>emoji := Val ''A'', color := Null, rotationSpeed := 0.01\<rparr>"
  have g: "truthy (emoji p)"
    by (simp add: p_def)
  have u: "unitRandoms sampleWorld \<and> [''A'', ''B''] \<noteq> [] \<and> (\<forall>e \<in> set [''A'', ''B'']. e \<noteq> [])"
    by (simp add: unitRandoms_def sampleWorld_def)
  have f: "rotationSpeed p = 0.01" "radius p = \<lparr>vec_x = 4, vec_y = 4\<rparr>" "radiusYDirection p = Down"
    by (simp_all add: p_def sampleConfetti_def)
  have y: "vec_y (position (updatePosition 16 1016 p)) = 532.36"
    by (simp add: updatePosition_position_y p_def sampleConfetti_def)
  have r: "rotationSpeed (updatePosition 16 1016 p) = 0.01"
    using g f by (simp add: updatePosition_rotationSpeed)
  show ?thesis
    unfolding Let_def p_def [symmetric]
    using g u f y r
      glyph_particle_only_moves [where p = p and us = "[(16, 1016), (100000, 101016)]"
        and w = sampleWorld and emos = "[''A'', ''B'']" and rad = 4
        and es = "[Update 16 1016, IconLoaded, Update 100000 101016]"
        and initPos = "\<lparr>vec_x = 0, vec_y = 0\<rparr>" and dir = Left and cols = defaultColors
        and icon = Null]
    by (simp add: Let_def)
qed

text \<open>
  Claim C9 with "emoji non-null" fails for the empty string: the constructor called with
  the emojis \<open>[]\<close> stores the emoji \<open>\<close>, which is not \<open>null\<close>, and the rotation speed
  0.01; the test \<open>!this.emoji\<close> of the update succeeds, so one update of 16 ms lowers the
  rotation speed to 0.00984 and \<open>radius.y\<close> from 4 to 3.84256. Likewise a particle created
  with an icon and no emoji takes the tumble branch until its image has loaded: once the
  icon is ready its rotation speed is no longer 0.01.
\<close>

theorem glyph_particle_tumbles_counterexample:
  "emoji (fst (newConfetti \<lparr>vec_x = 0, vec_y = 0\<rparr> Right 4 defaultColors [''''] Null sampleWorld))
     \<noteq> Null
   \<and> svgIcon (fst (newConfetti \<lparr>vec_x = 0, vec_y = 0\<rparr> Right 4 defaultColors [''''] Null sampleWorld))
     = None
   \<and> rotationSpeed (fst (newConfetti \<lparr>vec_x = 0, vec_y = 0\<rparr> Right 4 defaultColors [''''] Null
        sampleWorld)) = 0.01
   \<and> rotationSpeed (updatePosition 16 1016
        (fst (newConfetti \<lparr>vec_x = 0, vec_y = 0\<rparr> Right 4 defaultColors [''''] Null sampleWorld)))
     = 0.00984
   \<and> vec_y (radius (updatePosition 16 1016
        (fst (newConfetti \<lparr>vec_x = 0, vec_y = 0\<rparr> Right 4 defaultColors [''''] Null sampleWorld))))
     = 3.84256
   \<and> svgIcon (onload (updatePosition 16 1016
        (fst (newConfetti \<lparr>vec_x = 0, vec_y = 0\<rparr> Right 4 defaultColors [] (Val ''star.svg'')
           sampleWorld))))
     = Some (Image ''star.svg'')
   \<and> rotationSpeed (onload (updatePosition 16 1016
        (fst (newConfetti \<lparr>vec_x = 0, vec_y = 0\<rparr> Right 4 defaultColors [] (Val ''star.svg'')
           sampleWorld))))
     = 0.00984"
proof -
  define q where
    "q = fst (newConfetti \<lparr>vec_x = 0, vec_y = 0\<rparr> Right 4 defaultColors [''''] Null sampleWorld)"
  have e: "emoji q = Val ''''"
    by (simp add: q_def sample_empty_emoji)
  have f: "svgIcon q = None" "radiusYDirection q = Down" "vec_y (radius q) = 4"
    by (simp_all add: q_def newConfetti_fields)
  have r: "rotationSpeed q = 0.01"
    by (simp add: q_def newConfetti_rotationSpeed_glyph)
  have n: "\<not> truthy (emoji q)"
    by (simp add: e)
  have r': "rotationSpeed (updatePosition 16 1016 q) = 0.00984"
    using n f r by (simp add: updatePosition_rotationSpeed)
  have y': "vec_y (radius (updatePosition 16 1016 q)) = 3.84256"
    using n f r by (simp add: updatePosition_tumble_down)
  define s where
    "s = fst (newConfetti \<lparr>vec_x = 0, vec_y = 0\<rparr> Right 4 defaultColors [] (Val ''star.svg'')
           sampleWorld)"
  have se: "\<not> truthy (emoji s)" "svgIcon s = None"
    by (simp_all add: s_def newConfetti_emoji_Null newConfetti_fields)
  have sr: "rotationSpeed s = 0.01"
    by (simp add: s_def newConfetti_rotationSpeed_glyph)
  have si: "svgImage s = Some (Image ''star.svg'')"
    by (simp add: s_def newConfetti_svgImage)
  have s1: "svgIcon (onload (updatePosition 16 1016 s)) = Some (Image ''star.svg'')"
    using si by (simp add: onload_def updatePosition_fixed)
  have s2: "rotationSpeed (onload (updatePosition 16 1016 s)) = 0.00984"
    using se sr by (simp add: onload_fixed updatePosition_rotationSpeed)
  show ?thesis
    unfolding q_def [symmetric] s_def [symmetric] using e f r r' y' s1 s2 by simp
qed

subsection \<open>C10: the visibility bound is in device pixels\<close>





end
